theory Spec2Isabelle
  imports Main "HOL-Library.Multiset"
begin

section \<open>The todo-list component of \<open>src/components/main/Main.tsx\<close>\<close>

text \<open>
  The component keeps its task list in React state and mirrors it in the browser's
  \<open>localStorage\<close> under the key \<open>"todos"\<close>. It reads the list from a remote endpoint
  when it is mounted and posts new tasks to it. The model follows the component that
  has priorities, the first one of the file; the loader of the older component in
  \<open>src/unnamed/part_000\<close> stands beside it. The model passes the component's state
  explicitly; the answer of the remote endpoint to the one \<open>fetch\<close> that an operation
  performs is a parameter of that operation.
\<close>

subsection \<open>JavaScript values\<close>

text \<open>
  Everything the component holds comes out of \<open>JSON.parse\<close> or is built from strings,
  booleans and list lengths, so values are JSON values. An object is the list of its own
  properties in property order. A JavaScript number is a double; \<open>JNum\<close> holds the
  integers, which the doubles represent exactly up to \<open>2^53\<close>: the numbers the component
  computes are \<open>index + 1\<close> and \<open>todos.length + 1\<close>, and it compares ids for equality
  and nothing else. Fractions and integers beyond that range are outside the model.
  \<open>undefined\<close> is \<open>None\<close> in a \<open>json option\<close>.
\<close>

datatype json =
    JNull
  | JBool bool
  | JNum int
  | JStr string
  | JArr "json list"
  | JObj "(string \<times> json) list"

type_synonym obj = "(string \<times> json) list"

datatype js_exn = FetchRejected | Error string | SyntaxError | TypeError | QuotaExceededError

text \<open>\<open>ToBoolean\<close>: what \<open>||\<close>, \<open>!\<close> and \<open>if\<close> test.\<close>

fun truthy :: "json option \<Rightarrow> bool" where
  "truthy None = False"
| "truthy (Some JNull) = False"
| "truthy (Some (JBool b)) = b"
| "truthy (Some (JNum n)) = (n \<noteq> 0)"
| "truthy (Some (JStr s)) = (s \<noteq> [])"
| "truthy (Some (JArr xs)) = True"
| "truthy (Some (JObj ps)) = True"

text \<open>\<open>a || b\<close> with a defined right operand.\<close>

definition or_else :: "json option \<Rightarrow> json \<Rightarrow> json" where
  "or_else a b = (case a of None \<Rightarrow> b | Some v \<Rightarrow> if truthy (Some v) then v else b)"

text \<open>
  The property read \<open>v.k\<close>, for the names the component reads (\<open>data\<close>, \<open>priority\<close>),
  none of which is a built-in property of a string, an array, a number or a boolean:
  reading from \<open>null\<close> throws a \<open>TypeError\<close>, an object answers with its own property,
  everything else with \<open>undefined\<close>.
\<close>

fun read_prop :: "json \<Rightarrow> string \<Rightarrow> js_exn + json option" where
  "read_prop JNull k = Inl TypeError"
| "read_prop (JObj ps) k = Inr (map_of ps k)"
| "read_prop v k = Inr None"

text \<open>The decimal name of an array index, as an object key.\<close>

function index_key :: "nat \<Rightarrow> string" where
  "index_key n =
     (if n < 10 then [char_of (48 + n)]
      else index_key (n div 10) @ [char_of (48 + n mod 10)])"
  by pat_completeness auto
termination
  by (relation "measure id") auto

declare index_key.simps [simp del]

fun indexed :: "nat \<Rightarrow> 'a list \<Rightarrow> (nat \<times> 'a) list" where
  "indexed i [] = []"
| "indexed i (x # xs) = (i, x) # indexed (Suc i) xs"

text \<open>
  The own enumerable properties copied by \<open>{...v}\<close>: those of an object, the elements of
  an array and the code units of a string under their indices, nothing for \<open>null\<close>,
  \<open>undefined\<close>, numbers and booleans.
\<close>

fun spread :: "json option \<Rightarrow> obj" where
  "spread (Some (JObj ps)) = ps"
| "spread (Some (JArr xs)) = map (\<lambda>(i, x). (index_key i, x)) (indexed 0 xs)"
| "spread (Some (JStr s)) = map (\<lambda>(i, c). (index_key i, JStr [c])) (indexed 0 s)"
| "spread v = []"

text \<open>
  \<open>{...o, k: v}\<close> for a key that is not an array index: an existing property keeps its
  place and takes the new value, a new one goes to the end.
\<close>

fun assign :: "string \<Rightarrow> json \<Rightarrow> obj \<Rightarrow> obj" where
  "assign k v [] = [(k, v)]"
| "assign k v ((k', v') # ps) =
     (if k' = k then (k, v) # ps else (k', v') # assign k v ps)"

text \<open>
  \<open>ToString\<close>, which turns a value used as a property key into the key: an array is its
  elements joined by commas, with nothing for \<open>null\<close>, and every object is
  \<open>"[object Object]"\<close>.
\<close>

fun join :: "string list \<Rightarrow> string" where
  "join [] = []"
| "join [x] = x"
| "join (x # y # ys) = x @ '','' @ join (y # ys)"

fun to_string :: "json \<Rightarrow> string" where
  "to_string JNull = ''null''"
| "to_string (JBool b) = (if b then ''true'' else ''false'')"
| "to_string (JNum n) = (if n < 0 then ''-'' else []) @ index_key (nat \<bar>n\<bar>)"
| "to_string (JStr s) = s"
| "to_string (JArr xs) = join (map (\<lambda>x. if x = JNull then [] else to_string x) xs)"
| "to_string (JObj ps) = ''[object Object]''"

fun to_key :: "json option \<Rightarrow> string" where
  "to_key None = ''undefined''"
| "to_key (Some v) = to_string v"

subsection \<open>JSON text, local storage, the remote endpoint\<close>

text \<open>
  \<open>JSON.stringify\<close> and \<open>JSON.parse\<close> belong to the platform. A string held in
  \<open>localStorage\<close> or sent as a request body is represented by what \<open>JSON.parse\<close> makes of
  it: \<open>Serialized v\<close> is a text that parses to \<open>v\<close>, \<open>Malformed s\<close> is the text \<open>s\<close> on
  which \<open>JSON.parse\<close> throws a \<open>SyntaxError\<close>. \<open>JSON.stringify v\<close> is a text that parses
  back to \<open>v\<close>, which is what ECMAScript gives for every value of type \<open>json\<close>.
\<close>

datatype json_text = Serialized json | Malformed string

definition JSON_stringify :: "json \<Rightarrow> json_text" where
  "JSON_stringify v = Serialized v"

fun JSON_parse :: "json_text \<Rightarrow> js_exn + json" where
  "JSON_parse (Serialized v) = Inr v"
| "JSON_parse (Malformed s) = Inl SyntaxError"

text \<open>A string is falsy exactly when it is empty; a JSON text never is.\<close>

fun nonempty_text :: "json_text \<Rightarrow> bool" where
  "nonempty_text (Serialized v) = True"
| "nonempty_text (Malformed s) = (s \<noteq> [])"

text \<open>
  The outcome of \<open>fetch\<close>: the promise rejects, or it resolves to a response with its
  \<open>ok\<close> flag and its body; \<open>None\<close> is a body on which \<open>response.json()\<close> rejects.
  Requests go to \<open>API_URL\<close>; \<open>POST\<close> carries its headers and its body.
\<close>

datatype http_response = NetworkError | Response bool "json option"

datatype http_request = GET | POST "(string \<times> string) list" json_text

subsection \<open>The component's state\<close>

datatype Priority = Low | Medium | High

fun priority_name :: "Priority \<Rightarrow> string" where
  "priority_name Low = ''low''"
| "priority_name Medium = ''medium''"
| "priority_name High = ''high''"

datatype Filter = All | Completed | Active

record app_state =
  todos :: "obj list"
  input :: string
  priority :: Priority
  loading :: bool
  error :: "string option"
  filter_sel :: Filter
  localStorage :: "string \<rightharpoonup> json_text"
  network :: "http_request list"

text \<open>
  The list in state holds objects only: every path that stores into it builds each
  element with an object literal. \<open>network\<close> is the log of the requests sent so far.
  The initial values are those of the \<open>useState\<close> calls.
\<close>

definition initial_state :: "(string \<rightharpoonup> json_text) \<Rightarrow> app_state" where
  "initial_state store =
     \<lparr>todos = [], input = [], priority = Medium, loading = True, error = None,
      filter_sel = All, localStorage = store, network = []\<rparr>"

subsection \<open>fetchTodos\<close>

text \<open>\<open>arr.map(f)\<close> for a callback that may throw: the first exception ends the map.\<close>

fun map_exn :: "('a \<Rightarrow> js_exn + 'b) \<Rightarrow> 'a list \<Rightarrow> js_exn + 'b list" where
  "map_exn f [] = Inr []"
| "map_exn f (x # xs) =
     (case f x of
        Inl e \<Rightarrow> Inl e
      | Inr y \<Rightarrow> (case map_exn f xs of Inl e \<Rightarrow> Inl e | Inr ys \<Rightarrow> Inr (y # ys)))"

text \<open>\<open>{...todo, priority: todo.priority || "medium"}\<close>\<close>

definition with_priority :: "json \<Rightarrow> js_exn + obj" where
  "with_priority todo =
     (case read_prop todo ''priority'' of
        Inl e \<Rightarrow> Inl e
      | Inr p \<Rightarrow> Inr (assign ''priority'' (or_else p (JStr ''medium'')) (spread (Some todo))))"

text \<open>
  The \<open>try\<close> block after \<open>setLoading(true)\<close>, up to the value handed to \<open>setTodos\<close>:
  \<open>(data.data || []).map(...)\<close>. Only an array has a \<open>map\<close> method.
\<close>

definition todosWithPriority :: "http_response \<Rightarrow> js_exn + obj list" where
  "todosWithPriority resp =
     (case resp of
        NetworkError \<Rightarrow> Inl FetchRejected
      | Response ok body \<Rightarrow>
          if \<not> ok then Inl (Error ''Failed to fetch todos'')
          else (case body of
                  None \<Rightarrow> Inl SyntaxError
                | Some data \<Rightarrow>
                    (case read_prop data ''data'' of
                       Inl e \<Rightarrow> Inl e
                     | Inr d \<Rightarrow>
                         (case or_else d (JArr []) of
                            JArr xs \<Rightarrow> map_exn with_priority xs
                          | _ \<Rightarrow> Inl TypeError))))"

text \<open>The callback of the fallback's \<open>parsedTodos.map((item, index) => ...)\<close>.\<close>

definition from_cache :: "nat \<times> json \<Rightarrow> js_exn + obj" where
  "from_cache p =
     (case p of (index, item) \<Rightarrow>
        (case item of
           JStr s \<Rightarrow>
             Inr [(''id'', JNum (int index + 1)), (''title'', JStr s),
                  (''completed'', JBool False), (''priority'', JStr ''medium'')]
         | _ \<Rightarrow> with_priority item))"

text \<open>
  The \<open>catch\<close> block: the warning, then the cache. Nothing is stored into the list when
  \<open>getItem\<close> gives \<open>null\<close> or the empty string.
\<close>

definition fallback :: "app_state \<Rightarrow> app_state" where
  "fallback st =
     (let st1 = st\<lparr>error := Some ''Failed to load todos. Using local storage as fallback.''\<rparr>
      in case localStorage st1 ''todos'' of
           None \<Rightarrow> st1
         | Some localTodos \<Rightarrow>
             if \<not> nonempty_text localTodos then st1
             else (case JSON_parse localTodos of
                     Inl e \<Rightarrow> st1\<lparr>todos := []\<rparr>
                   | Inr (JArr parsedTodos) \<Rightarrow>
                       (case map_exn from_cache (indexed 0 parsedTodos) of
                          Inl e \<Rightarrow> st1\<lparr>todos := []\<rparr>
                        | Inr ts \<Rightarrow> st1\<lparr>todos := ts\<rparr>)
                   | Inr _ \<Rightarrow> st1\<lparr>todos := []\<rparr>))"

definition fetchTodos :: "http_response \<Rightarrow> app_state \<Rightarrow> app_state" where
  "fetchTodos resp st =
     (let st1 = st\<lparr>loading := True, network := network st @ [GET]\<rparr>;
          st2 = (case todosWithPriority resp of
                   Inr ts \<Rightarrow> st1\<lparr>todos := ts, error := None\<rparr>
                 | Inl err \<Rightarrow> fallback st1)
      in st2\<lparr>loading := False\<rparr>)"

text \<open>\<open>useEffect(() => { fetchTodos(); }, [])\<close>: the one call, on the initial state.\<close>

definition mount :: "http_response \<Rightarrow> (string \<rightharpoonup> json_text) \<Rightarrow> app_state" where
  "mount resp store = fetchTodos resp (initial_state store)"

subsection \<open>addTodo, toggleTodoCompletion, deleteTodo, handleSubmit\<close>

text \<open>
  \<open>localStorage.setItem\<close> stores the text, or throws a \<open>QuotaExceededError\<close> when the
  storage has no room for it. \<open>accepts\<close> tells which texts the storage has room for;
  \<open>stored\<close> is the state after a write that it accepted.
\<close>

definition stored :: "string \<Rightarrow> json_text \<Rightarrow> app_state \<Rightarrow> app_state" where
  "stored k v st = st\<lparr>localStorage := (localStorage st)(k \<mapsto> v)\<rparr>"

definition setItem ::
  "(json_text \<Rightarrow> bool) \<Rightarrow> string \<Rightarrow> json_text \<Rightarrow> app_state \<Rightarrow> js_exn + app_state" where
  "setItem accepts k v st = (if accepts v then Inr (stored k v st) else Inl QuotaExceededError)"

text \<open>The request of \<open>addTodo\<close>: \<open>todoForBackend = { task }\<close>.\<close>

definition add_request :: "string \<Rightarrow> http_request" where
  "add_request task =
     POST [(''Content-Type'', ''application/json'')] (JSON_stringify (JObj [(''task'', JStr task)]))"

text \<open>The \<open>try\<close> block of \<open>addTodo\<close> up to \<open>data.data\<close>.\<close>

definition created :: "http_response \<Rightarrow> js_exn + json option" where
  "created resp =
     (case resp of
        NetworkError \<Rightarrow> Inl FetchRejected
      | Response ok body \<Rightarrow>
          if \<not> ok then Inl (Error ''Failed to add todo'')
          else (case body of
                  None \<Rightarrow> Inl SyntaxError
                | Some data \<Rightarrow> read_prop data ''data''))"

text \<open>
  \<open>addTodo\<close>, \<open>toggleTodoCompletion\<close> and \<open>deleteTodo\<close> with a storage that has room for
  what they write; \<open>addTodo_quota\<close> below is \<open>addTodo\<close> with any storage.
\<close>

definition addTodo :: "http_response \<Rightarrow> string \<Rightarrow> Priority \<Rightarrow> app_state \<Rightarrow> bool \<times> app_state" where
  "addTodo resp task p st =
     (let st1 = st\<lparr>network := network st @ [add_request task]\<rparr>
      in case created resp of
           Inr d \<Rightarrow>
             (let newTodo = assign ''priority'' (JStr (priority_name p)) (spread d);
                  st2 = st1\<lparr>todos := todos st @ [newTodo]\<rparr>
              in (True, stored ''todos'' (JSON_stringify (JArr (map JObj (todos st @ [newTodo])))) st2))
         | Inl err \<Rightarrow>
             (let st2 = st1\<lparr>error := Some ''Failed to add todo. Added to local storage only.''\<rparr>;
                  newTodo = [(''id'', JNum (int (length (todos st)) + 1)), (''title'', JStr task),
                             (''completed'', JBool False), (''priority'', JStr (priority_name p))];
                  st3 = st2\<lparr>todos := todos st @ [newTodo]\<rparr>
              in (False, stored ''todos'' (JSON_stringify (JArr (map JObj (todos st @ [newTodo])))) st3)))"

text \<open>
  \<open>addTodo\<close> with a storage that may refuse the write. \<open>Inl\<close> is the promise rejecting,
  with the exception and the state that is left. When \<open>setItem\<close> throws in the \<open>try\<close>
  block the \<open>catch\<close> block runs: its \<open>setTodos\<close> is the later of the two, and it builds
  its list from the same \<open>todos\<close>. Nothing guards the \<open>setItem\<close> of the \<open>catch\<close> block.
\<close>

definition addTodo_quota ::
  "(json_text \<Rightarrow> bool) \<Rightarrow> http_response \<Rightarrow> string \<Rightarrow> Priority \<Rightarrow> app_state
     \<Rightarrow> js_exn \<times> app_state + bool \<times> app_state" where
  "addTodo_quota accepts resp task p st =
     (let st1 = st\<lparr>network := network st @ [add_request task]\<rparr>;
          attempt =
            (case created resp of
               Inl err \<Rightarrow> Inl st1
             | Inr d \<Rightarrow>
                 (let newTodo = assign ''priority'' (JStr (priority_name p)) (spread d);
                      st2 = st1\<lparr>todos := todos st @ [newTodo]\<rparr>
                  in case setItem accepts ''todos''
                            (JSON_stringify (JArr (map JObj (todos st @ [newTodo])))) st2 of
                       Inl err \<Rightarrow> Inl st2
                     | Inr st3 \<Rightarrow> Inr (True, st3)))
      in case attempt of
           Inr done \<Rightarrow> Inr done
         | Inl thrown \<Rightarrow>
             (let st2 = thrown\<lparr>error := Some ''Failed to add todo. Added to local storage only.''\<rparr>;
                  newTodo = [(''id'', JNum (int (length (todos st)) + 1)), (''title'', JStr task),
                             (''completed'', JBool False), (''priority'', JStr (priority_name p))];
                  st3 = st2\<lparr>todos := todos st @ [newTodo]\<rparr>
              in case setItem accepts ''todos''
                        (JSON_stringify (JArr (map JObj (todos st @ [newTodo])))) st3 of
                   Inl err \<Rightarrow> Inl (err, st3)
                 | Inr st4 \<Rightarrow> Inr (False, st4)))"

text \<open>\<open>todo.id === id\<close> for the number \<open>id\<close>.\<close>

definition has_id :: "int \<Rightarrow> obj \<Rightarrow> bool" where
  "has_id i todo = (map_of todo ''id'' = Some (JNum i))"

text \<open>
  The callback of \<open>toggleTodoCompletion\<close>:
  \<open>todo.id === id ? { ...todo, completed: !todo.completed } : todo\<close>
\<close>

definition toggled :: "int \<Rightarrow> obj \<Rightarrow> obj" where
  "toggled i todo =
     (if has_id i todo
      then assign ''completed'' (JBool (\<not> truthy (map_of todo ''completed''))) todo
      else todo)"

definition toggleTodoCompletion :: "int \<Rightarrow> app_state \<Rightarrow> app_state" where
  "toggleTodoCompletion i st =
     (let updatedTodos = map (toggled i) (todos st)
      in stored ''todos'' (JSON_stringify (JArr (map JObj updatedTodos))) (st\<lparr>todos := updatedTodos\<rparr>))"

definition deleteTodo :: "int \<Rightarrow> app_state \<Rightarrow> app_state" where
  "deleteTodo i st =
     (let updatedTodos = filter (\<lambda>todo. \<not> has_id i todo) (todos st)
      in stored ''todos'' (JSON_stringify (JArr (map JObj updatedTodos))) (st\<lparr>todos := updatedTodos\<rparr>))"




subsection \<open>The loader of \<open>src/unnamed/part_000\<close>\<close>







subsection \<open>The derived views\<close>

definition filteredTodos :: "app_state \<Rightarrow> obj list" where
  "filteredTodos st =
     filter (\<lambda>todo. case filter_sel st of
                      All \<Rightarrow> True
                    | Completed \<Rightarrow> truthy (map_of todo ''completed'')
                    | Active \<Rightarrow> \<not> truthy (map_of todo ''completed'')) (todos st)"

text \<open>
  \<open>priorityOrder[todo.priority]\<close> for \<open>priorityOrder = { high: 3, medium: 2, low: 1 }\<close>;
  the priority is turned into a key first. \<open>None\<close> is every result that is not a
  number: \<open>undefined\<close> for a key the table does not have, and what the table inherits
  from \<open>Object.prototype\<close>.
\<close>

definition priorityOrder :: "obj \<Rightarrow> int option" where
  "priorityOrder todo =
     (let key = to_key (map_of todo ''priority'')
      in if key = ''high'' then Some 3 else if key = ''medium'' then Some 2
         else if key = ''low'' then Some 1 else None)"

text \<open>
  The comparator \<open>(a, b) => priorityOrder[b.priority] - priorityOrder[a.priority]\<close>;
  a difference with \<open>undefined\<close> is \<open>NaN\<close>, which \<open>sort\<close> reads as \<open>0\<close>.
\<close>

definition by_priority :: "obj \<Rightarrow> obj \<Rightarrow> int" where
  "by_priority a b =
     (case (priorityOrder b, priorityOrder a) of
        (Some x, Some y) \<Rightarrow> x - y
      | _ \<Rightarrow> 0)"

text \<open>
  \<open>Array.prototype.sort\<close> is a stable sort (ECMAScript 2019): under a consistent
  comparator its result is the one stable ordering of the input, which a stable insertion
  sort computes.
\<close>

fun insert_sorted :: "('a \<Rightarrow> 'a \<Rightarrow> int) \<Rightarrow> 'a \<Rightarrow> 'a list \<Rightarrow> 'a list" where
  "insert_sorted cmp x [] = [x]"
| "insert_sorted cmp x (y # ys) =
     (if cmp x y \<le> 0 then x # y # ys else y # insert_sorted cmp x ys)"

definition js_sort :: "('a \<Rightarrow> 'a \<Rightarrow> int) \<Rightarrow> 'a list \<Rightarrow> 'a list" where
  "js_sort cmp xs = foldr (insert_sorted cmp) xs []"

definition sortedTodos :: "app_state \<Rightarrow> obj list" where
  "sortedTodos st = js_sort by_priority (filteredTodos st)"

subsection \<open>Notions of the specification\<close>

text \<open>
  What the specification says of the data, in its own words, to compare the code with.
  A body or an entry \<^emph>\<open>has\<close> a field when it is an object with that own property.
\<close>

fun own_property :: "json \<Rightarrow> string \<Rightarrow> json option" where
  "own_property (JObj ps) k = map_of ps k"
| "own_property v k = None"

text \<open>An object with its missing \<open>priority\<close> defaulted to \<open>"medium"\<close>, and unchanged otherwise.\<close>

fun priority_defaulted :: "json \<Rightarrow> json" where
  "priority_defaulted (JObj ps) =
     (case map_of ps ''priority'' of
        None \<Rightarrow> JObj (ps @ [(''priority'', JStr ''medium'')])
      | Some p \<Rightarrow> JObj ps)"
| "priority_defaulted v = v"


text \<open>The record that a failed create call leaves, for a list of length \<open>n\<close>.\<close>

definition synthetic_record :: "nat \<Rightarrow> string \<Rightarrow> Priority \<Rightarrow> obj" where
  "synthetic_record n task p =
     [(''id'', JNum (int n + 1)), (''title'', JStr task), (''completed'', JBool False),
      (''priority'', JStr (priority_name p))]"

text \<open>
  A task-shaped object of the endpoint or of the cache: an object whose \<open>priority\<close> is
  absent or a value that JavaScript does not count as false, as \<open>"low"\<close>, \<open>"medium"\<close>
  and \<open>"high"\<close> are. A cache entry is a bare string or such an object.
\<close>

definition task_object :: "json \<Rightarrow> bool" where
  "task_object v =
     (case v of
        JObj ps \<Rightarrow> (case map_of ps ''priority'' of None \<Rightarrow> True | Some p \<Rightarrow> truthy (Some p))
      | _ \<Rightarrow> False)"


text \<open>The cache under \<open>"todos"\<close> deserialises to the list in state.\<close>

definition cache_mirrors_list :: "app_state \<Rightarrow> bool" where
  "cache_mirrors_list st =
     (case localStorage st ''todos'' of
        None \<Rightarrow> False
      | Some t \<Rightarrow> JSON_parse t = Inr (JArr (map JObj (todos st))))"

text \<open>The priority rank of a task, \<open>0\<close> where \<open>priorityOrder\<close> has none.\<close>

definition rank :: "obj \<Rightarrow> int" where
  "rank t = (case priorityOrder t of Some r \<Rightarrow> r | None \<Rightarrow> 0)"

subsection \<open>Example data\<close>

definition two_tasks :: "obj list" where
  "two_tasks =
     [[(''id'', JNum 1), (''title'', JStr ''Walk dog''), (''completed'', JBool False),
       (''priority'', JStr ''high'')],
      [(''id'', JNum 2), (''title'', JStr ''Pay rent''), (''completed'', JBool True),
       (''priority'', JStr ''medium'')]]"

definition mixed_cache :: "string \<rightharpoonup> json_text" where
  "mixed_cache =
     [''todos'' \<mapsto> Serialized (JArr
        [JStr ''Buy milk'',
         JObj [(''id'', JNum 7), (''title'', JStr ''Pay rent''), (''completed'', JBool True)]])]"



definition full_storage :: "json_text \<Rightarrow> bool" where
  "full_storage v = False"

definition roomy_storage :: "json_text \<Rightarrow> bool" where
  "roomy_storage v = True"

definition served_body :: json where
  "served_body =
     JObj [(''data'', JArr
       [JObj [(''id'', JNum 7), (''title'', JStr ''Buy milk''), (''completed'', JBool False)],
        JObj [(''id'', JNum 8), (''title'', JStr ''Call bank''), (''completed'', JBool True),
              (''priority'', JStr ''high'')]])]"

definition task_A :: obj where
  "task_A = [(''id'', JNum 1), (''title'', JStr ''A''), (''completed'', JBool False),
             (''priority'', JStr ''high'')]"

definition task_B :: obj where
  "task_B = [(''id'', JNum 2), (''title'', JStr ''B''), (''completed'', JBool False),
             (''priority'', JStr ''medium'')]"

definition task_C :: obj where
  "task_C = [(''id'', JNum 3), (''title'', JStr ''C''), (''completed'', JBool False),
             (''priority'', JStr ''high'')]"


section \<open>Properties\<close>

subsection \<open>Objects\<close>

lemma map_of_assign: "map_of (assign k v ps) k' = (if k' = k then Some v else map_of ps k')"
  by (induction ps) auto

lemma assign_idem: "map_of ps k = Some v \<Longrightarrow> assign k v ps = ps"
  by (induction ps) (auto split: if_splits)

lemma assign_assign: "assign k v (assign k w ps) = assign k v ps"
  by (induction ps) auto

lemma assign_absent: "map_of ps k = None \<Longrightarrow> assign k v ps = ps @ [(k, v)]"
  by (induction ps) (auto split: if_splits)

lemma read_prop_own: "body \<noteq> JNull \<Longrightarrow> read_prop body k = Inr (own_property body k)"
  by (cases body) simp_all


subsection \<open>Positions\<close>





subsection \<open>The loader's two maps\<close>

lemma with_priority_task:
  "task_object v \<Longrightarrow> \<exists>ps. with_priority v = Inr ps \<and> JObj ps = priority_defaulted v"
  by (cases v)
     (auto simp: task_object_def with_priority_def or_else_def assign_absent assign_idem
           split: option.splits)


lemma map_exn_all:
  "\<forall>x \<in> set xs. \<exists>y. f x = Inr y \<and> JObj y = g x \<Longrightarrow>
     \<exists>ys. map_exn f xs = Inr ys \<and> map JObj ys = map g xs"
proof (induction xs)
  case Nil
  then show ?case by simp
next
  case (Cons x xs)
  then obtain y where y: "f x = Inr y" "JObj y = g x" by auto
  from Cons obtain ys where ys: "map_exn f xs = Inr ys" "map JObj ys = map g xs" by auto
  show ?case using y ys by simp
qed









lemma todos_fetch_ok:
  "todosWithPriority resp = Inr ts \<Longrightarrow>
     fetchTodos resp st =
       st\<lparr>loading := False, network := network st @ [GET], todos := ts, error := None\<rparr>"
  by (simp add: fetchTodos_def Let_def)

lemma fetchTodos_failed_state:
  "todosWithPriority resp = Inl e \<Longrightarrow>
     fetchTodos resp st =
       (fallback (st\<lparr>loading := True, network := network st @ [GET]\<rparr>))\<lparr>loading := False\<rparr>"
  by (simp add: fetchTodos_def Let_def)

lemma fallback_error:
  "error (fallback st) = Some ''Failed to load todos. Using local storage as fallback.''"
  by (auto simp: fallback_def Let_def split: option.splits sum.splits json.splits)

lemma fallback_no_usable_cache:
  assumes "localStorage st ''todos'' = None \<or>
           (\<exists>t. localStorage st ''todos'' = Some t \<and> JSON_parse t = Inl SyntaxError)"
  shows "todos (fallback st) = [] \<or> todos (fallback st) = todos st"
  using assms by (auto simp: fallback_def Let_def)

text \<open>
  Whatever the list was, a failed read leaves it alone when \<open>getItem\<close> gives \<open>null\<close> or
  the empty string, and empties it when the cached text is not empty and does not parse.
\<close>

lemma fetchTodos_failed_absent_cache:
  assumes "todosWithPriority resp = Inl e"
    and "localStorage st ''todos'' = None \<or> localStorage st ''todos'' = Some (Malformed [])"
  shows "todos (fetchTodos resp st) = todos st"
  using assms by (auto simp: fetchTodos_failed_state fallback_def Let_def)

lemma fetchTodos_failed_unparsable_cache:
  assumes "todosWithPriority resp = Inl e"
    and "localStorage st ''todos'' = Some t" "nonempty_text t" "JSON_parse t = Inl err"
  shows "todos (fetchTodos resp st) = []"
  using assms by (auto simp: fetchTodos_failed_state fallback_def Let_def)

text \<open>
  C4. A 2xx answer whose body has a \<open>data\<close> array of task-shaped objects: the list in state
  is that array with each element's missing priority defaulted to \<open>"medium"\<close>, the warning
  is cleared, and local storage is what it was.
\<close>

theorem fetchTodos_success:
  assumes "own_property body ''data'' = Some (JArr xs)"
    and "\<forall>x \<in> set xs. task_object x"
  shows "map JObj (todos (fetchTodos (Response True (Some body)) st)) = map priority_defaulted xs \<and>
         error (fetchTodos (Response True (Some body)) st) = None \<and>
         localStorage (fetchTodos (Response True (Some body)) st) = localStorage st"
proof -
  obtain ts where ts: "map_exn with_priority xs = Inr ts"
      "map JObj ts = map priority_defaulted xs"
    using assms(2) map_exn_all [of xs with_priority priority_defaulted] with_priority_task
    by blast
  have nn: "body \<noteq> JNull" using assms(1) by auto
  have "todosWithPriority (Response True (Some body)) = Inr ts"
    using assms(1) ts(1) by (simp add: todosWithPriority_def read_prop_own [OF nn] or_else_def)
  then show ?thesis using ts(2) by (simp add: todos_fetch_ok)
qed

theorem fetchTodos_success_witness:
  "map JObj (todos (fetchTodos (Response True (Some served_body)) (initial_state mixed_cache))) =
     [JObj [(''id'', JNum 7), (''title'', JStr ''Buy milk''), (''completed'', JBool False),
            (''priority'', JStr ''medium'')],
      JObj [(''id'', JNum 8), (''title'', JStr ''Call bank''), (''completed'', JBool True),
            (''priority'', JStr ''high'')]] \<and>
   error (fetchTodos (Response True (Some served_body)) (initial_state mixed_cache)) = None \<and>
   localStorage (fetchTodos (Response True (Some served_body)) (initial_state mixed_cache)) =
     mixed_cache"
proof -
  let ?xs = "[JObj [(''id'', JNum 7), (''title'', JStr ''Buy milk''), (''completed'', JBool False)],
              JObj [(''id'', JNum 8), (''title'', JStr ''Call bank''), (''completed'', JBool True),
                    (''priority'', JStr ''high'')]]"
  have h1: "own_property served_body ''data'' = Some (JArr ?xs)"
    by (simp add: served_body_def)
  have h2: "\<forall>x \<in> set ?xs. task_object x"
    by (simp add: task_object_def)
  show ?thesis
    using fetchTodos_success [OF h1 h2, of "initial_state mixed_cache"]
    by (simp add: initial_state_def)
qed

text \<open>
  C8. The loader runs once, from the mount effect, on the initial state. When that read
  fails and the cache under \<open>"todos"\<close> is absent, or present and not parsable, the list
  is empty and a warning that is not the empty string is set.
\<close>

theorem mount_failed_without_cache:
  assumes "todosWithPriority resp = Inl e"
    and "store ''todos'' = None \<or>
         (\<exists>t. store ''todos'' = Some t \<and> JSON_parse t = Inl SyntaxError)"
  shows "todos (mount resp store) = [] \<and>
         (\<exists>w. error (mount resp store) = Some w \<and> w \<noteq> [])"
proof -
  let ?st = "(initial_state store)\<lparr>loading := True,
               network := network (initial_state store) @ [GET]\<rparr>"
  have "localStorage ?st ''todos'' = None \<or>
        (\<exists>t. localStorage ?st ''todos'' = Some t \<and> JSON_parse t = Inl SyntaxError)"
    using assms(2) by (simp add: initial_state_def)
  then have "todos (fallback ?st) = [] \<or> todos (fallback ?st) = todos ?st"
    by (rule fallback_no_usable_cache)
  then have "todos (fallback ?st) = []" by (auto simp: initial_state_def)
  then show ?thesis
    using assms(1) by (simp add: mount_def fetchTodos_failed_state fallback_error)
qed

theorem mount_failed_without_cache_witness:
  "todosWithPriority NetworkError = Inl FetchRejected \<and>
   todos (mount NetworkError Map.empty) = [] \<and>
   error (mount NetworkError Map.empty) =
     Some ''Failed to load todos. Using local storage as fallback.'' \<and>
   JSON_parse (Malformed ''{oops'') = Inl SyntaxError \<and>
   todos (mount (Response False None) [''todos'' \<mapsto> Malformed ''{oops'']) = []"
proof -
  have h1: "todosWithPriority NetworkError = Inl FetchRejected"
    by (simp add: todosWithPriority_def)
  have g1: "todosWithPriority (Response False None) = Inl (Error ''Failed to fetch todos'')"
    by (simp add: todosWithPriority_def)
  have a: "todos (mount NetworkError Map.empty) = []"
    using mount_failed_without_cache [of NetworkError FetchRejected Map.empty] h1 by simp
  have b: "todos (mount (Response False None) [''todos'' \<mapsto> Malformed ''{oops'']) = []"
    using mount_failed_without_cache [of "Response False None" "Error ''Failed to fetch todos''"
        "[''todos'' \<mapsto> Malformed ''{oops'']"] g1
    by simp
  show ?thesis
    using a b h1 by (simp add: mount_def fetchTodos_failed_state fallback_error)
qed

text \<open>
  C10, as the code has it. A 2xx answer whose body parses to anything but \<open>null\<close> and
  has no \<open>data\<close> field, or a \<open>data\<close> that JavaScript counts as false, is a successful
  read: the list becomes empty, the warning is cleared, local storage is left as it was
  and its content has no part in the result.
\<close>

theorem fetchTodos_without_data:
  assumes "body \<noteq> JNull" and "\<not> truthy (own_property body ''data'')"
  shows "todos (fetchTodos (Response True (Some body)) st) = [] \<and>
         error (fetchTodos (Response True (Some body)) st) = None \<and>
         localStorage (fetchTodos (Response True (Some body)) st) = localStorage st \<and>
         todos (fetchTodos (Response True (Some body)) (st\<lparr>localStorage := store\<rparr>)) = []"
proof -
  have "todosWithPriority (Response True (Some body)) = Inr []"
    using assms
    by (auto simp: todosWithPriority_def read_prop_own or_else_def split: option.splits)
  then show ?thesis by (simp add: todos_fetch_ok)
qed

theorem fetchTodos_without_data_witness:
  "JObj [] \<noteq> JNull \<and> \<not> truthy (own_property (JObj []) ''data'') \<and>
   todos (fetchTodos (Response True (Some (JObj []))) (initial_state mixed_cache)) = [] \<and>
   error (fetchTodos (Response True (Some (JObj []))) (initial_state mixed_cache)) = None \<and>
   localStorage (fetchTodos (Response True (Some (JObj []))) (initial_state mixed_cache)) =
     mixed_cache"
proof -
  have h1: "JObj [] \<noteq> JNull" by simp
  have h2: "\<not> truthy (own_property (JObj []) ''data'')" by simp
  show ?thesis
    using fetchTodos_without_data [OF h1 h2, of "initial_state mixed_cache"] h2
    by (simp add: initial_state_def)
qed

text \<open>
  C10, as the claim states it, fails for the body \<open>null\<close>: it is parsable and has no
  \<open>data\<close> field, yet \<open>data.data\<close> throws, the warning is set and the list is taken from
  the cache.
\<close>

theorem null_body_is_a_failed_read:
  "JSON_parse (Serialized JNull) = Inr JNull \<and>
   own_property JNull ''data'' = None \<and>
   error (fetchTodos (Response True (Some JNull)) (initial_state mixed_cache)) =
     Some ''Failed to load todos. Using local storage as fallback.'' \<and>
   todos (fetchTodos (Response True (Some JNull)) (initial_state mixed_cache)) =
     [[(''id'', JNum 1), (''title'', JStr ''Buy milk''), (''completed'', JBool False),
       (''priority'', JStr ''medium'')],
      [(''id'', JNum 7), (''title'', JStr ''Pay rent''), (''completed'', JBool True),
       (''priority'', JStr ''medium'')]]"
  by (simp add: fetchTodos_def todosWithPriority_def fallback_def initial_state_def
        mixed_cache_def from_cache_def with_priority_def or_else_def)

subsection \<open>Data that is not task-shaped\<close>

text \<open>
  What the loader does with the values that the hypotheses above leave out. A \<open>null\<close>
  among the elements of \<open>data\<close> makes the callback throw, and the read is handled as a
  failed one; a \<open>null\<close> among the cache entries empties the list; a priority that
  JavaScript counts as false is replaced like a missing one.
\<close>

lemma null_element_is_a_failed_read:
  "error (fetchTodos (Response True (Some (JObj [(''data'', JArr [JNull])])))
                     (initial_state Map.empty)) =
     Some ''Failed to load todos. Using local storage as fallback.''"
  by (simp add: fetchTodos_def todosWithPriority_def with_priority_def or_else_def
        fallback_def initial_state_def)

lemma null_cache_entry_empties_list:
  "todos (fetchTodos NetworkError
            ((initial_state [''todos'' \<mapsto> Serialized (JArr [JStr ''a'', JNull])])
               \<lparr>todos := two_tasks\<rparr>)) = []"
  by (simp add: fetchTodos_def todosWithPriority_def with_priority_def from_cache_def
        fallback_def initial_state_def)

lemma falsy_priority_is_replaced:
  "todos (fetchTodos (Response True (Some (JObj [(''data'',
            JArr [JObj [(''id'', JNum 1), (''priority'', JStr [])]])])))
          (initial_state Map.empty)) =
     [[(''id'', JNum 1), (''priority'', JStr ''medium'')]]"
  by (simp add: fetchTodos_def todosWithPriority_def with_priority_def or_else_def
        initial_state_def)

subsection \<open>The mutators\<close>

text \<open>
  With room for every text \<open>addTodo_quota\<close> is \<open>addTodo\<close>. Whatever the storage does, the
  one request is sent, and when \<open>addTodo_quota\<close> returns the cache mirrors the list.
\<close>

lemma addTodo_quota_accepting:
  "\<forall>v. accepts v \<Longrightarrow> addTodo_quota accepts resp task p st = Inr (addTodo resp task p st)"
  by (auto simp: addTodo_quota_def addTodo_def setItem_def Let_def split: sum.splits)

lemma addTodo_quota_request:
  "addTodo_quota accepts resp task p st = Inl (e, st') \<or>
   addTodo_quota accepts resp task p st = Inr (ok, st') \<Longrightarrow>
     network st' = network st @ [add_request task]"
  by (auto simp: addTodo_quota_def setItem_def stored_def Let_def split: sum.splits if_splits)

lemma addTodo_quota_cache:
  "addTodo_quota accepts resp task p st = Inr (ok, st') \<Longrightarrow> cache_mirrors_list st'"
  by (auto simp: addTodo_quota_def setItem_def stored_def cache_mirrors_list_def JSON_stringify_def
        Let_def split: sum.splits if_splits)

text \<open>
  C3, as the code has it. When the create call fails (the \<open>fetch\<close> rejects, or the status
  is not 2xx) on a list of length \<open>n\<close>, the record
  \<open>{id: n + 1, title: task, completed: false, priority}\<close> is appended to the list and a
  warning that is not the empty string is set. When the storage has room for the new
  list, the whole list is written to the cache and \<open>addTodo\<close> returns \<open>false\<close>. When it
  has not, \<open>setItem\<close> throws in the \<open>catch\<close> block, the cache stays as it was and the
  \<open>QuotaExceededError\<close> reaches the caller.
\<close>

theorem addTodo_quota_remote_failure:
  assumes "resp = NetworkError \<or> resp = Response False body"
  shows "(accepts (JSON_stringify
            (JArr (map JObj (todos st @ [synthetic_record (length (todos st)) task p])))) \<longrightarrow>
          (\<exists>st'. addTodo_quota accepts resp task p st = Inr (False, st') \<and>
             todos st' = todos st @ [synthetic_record (length (todos st)) task p] \<and>
             localStorage st' ''todos'' = Some (JSON_stringify (JArr (map JObj (todos st')))) \<and>
             (\<exists>w. error st' = Some w \<and> w \<noteq> []))) \<and>
         (\<not> accepts (JSON_stringify
            (JArr (map JObj (todos st @ [synthetic_record (length (todos st)) task p])))) \<longrightarrow>
          (\<exists>st'. addTodo_quota accepts resp task p st = Inl (QuotaExceededError, st') \<and>
             todos st' = todos st @ [synthetic_record (length (todos st)) task p] \<and>
             localStorage st' = localStorage st \<and>
             (\<exists>w. error st' = Some w \<and> w \<noteq> [])))"
  using assms
  by (auto simp: addTodo_quota_def created_def setItem_def stored_def synthetic_record_def Let_def)

theorem addTodo_quota_remote_failure_witness:
  "length two_tasks = 2 \<and>
   roomy_storage (JSON_stringify (JArr (map JObj
     (two_tasks @ [synthetic_record 2 ''Buy milk'' Medium])))) \<and>
   synthetic_record 2 ''Buy milk'' Medium =
     [(''id'', JNum 3), (''title'', JStr ''Buy milk''), (''completed'', JBool False),
      (''priority'', JStr ''medium'')] \<and>
   (\<exists>st'. addTodo_quota roomy_storage NetworkError ''Buy milk'' Medium
                 ((initial_state Map.empty)\<lparr>todos := two_tasks\<rparr>) = Inr (False, st') \<and>
          todos st' = two_tasks @ [synthetic_record 2 ''Buy milk'' Medium] \<and>
          localStorage st' ''todos'' = Some (JSON_stringify (JArr (map JObj (todos st')))))"
proof -
  have h: "NetworkError = NetworkError \<or> NetworkError = Response False None" by simp
  have l: "length two_tasks = 2" by (simp add: two_tasks_def)
  have r: "roomy_storage v" for v by (simp add: roomy_storage_def)
  have s: "synthetic_record 2 ''Buy milk'' Medium =
     [(''id'', JNum 3), (''title'', JStr ''Buy milk''), (''completed'', JBool False),
      (''priority'', JStr ''medium'')]"
    by (simp add: synthetic_record_def)
  show ?thesis
    using addTodo_quota_remote_failure [OF h, of roomy_storage
            "(initial_state Map.empty)\<lparr>todos := two_tasks\<rparr>" "''Buy milk''" Medium] l r s
    by auto
qed

text \<open>
  C3, as the claim states it, fails when the storage is full: the create call fails,
  the record is appended and the warning set, and then \<open>addTodo\<close> throws instead of
  returning \<open>false\<close>, with nothing written to the cache.
\<close>

theorem addTodo_throws_when_storage_is_full:
  "addTodo_quota full_storage NetworkError ''Buy milk'' Medium
       ((initial_state Map.empty)\<lparr>todos := two_tasks\<rparr>) =
     Inl (QuotaExceededError,
          (initial_state Map.empty)
            \<lparr>todos := two_tasks @ [synthetic_record 2 ''Buy milk'' Medium],
              error := Some ''Failed to add todo. Added to local storage only.'',
              network := [add_request ''Buy milk'']\<rparr>)"
  by (simp add: addTodo_quota_def created_def setItem_def full_storage_def synthetic_record_def
        initial_state_def two_tasks_def Let_def)

text \<open>
  C9. The one request of \<open>addTodo\<close> is the \<open>POST\<close> whose body is the serialisation of
  \<open>{ task: title }\<close>, whatever the priority, the response and the state: two invocations
  with the same title send the same request. Toggling and deleting send nothing.
\<close>

theorem addTodo_sends_title_only:
  "network (snd (addTodo resp task p st)) =
     network st @ [POST [(''Content-Type'', ''application/json'')]
                        (JSON_stringify (JObj [(''task'', JStr task)]))] \<and>
   last (network (snd (addTodo resp task p st))) =
     last (network (snd (addTodo resp' task p' st'))) \<and>
   network (toggleTodoCompletion i st) = network st \<and>
   network (deleteTodo i st) = network st"
  by (auto simp: addTodo_def add_request_def toggleTodoCompletion_def deleteTodo_def
        stored_def Let_def split: sum.splits)


lemma todos_toggle: "todos (toggleTodoCompletion i st) = map (toggled i) (todos st)"
  by (simp add: toggleTodoCompletion_def stored_def Let_def)

lemma toggled_twice:
  "toggled i (toggled i t) =
     (if has_id i t then assign ''completed'' (JBool (truthy (map_of t ''completed''))) t else t)"
  by (simp add: toggled_def has_id_def map_of_assign assign_assign)

lemma truthy_toggled_twice:
  "truthy (map_of (toggled i (toggled i t)) ''completed'') = truthy (map_of t ''completed'')"
  by (simp add: toggled_twice map_of_assign)

lemma toggled_twice_bool:
  "map_of t ''completed'' = Some (JBool b) \<Longrightarrow> toggled i (toggled i t) = t"
  by (simp add: toggled_twice assign_idem)

text \<open>
  C6. Toggling the same id twice gives every task the completion it had: for any list
  each task is completed after the two toggles exactly when it was before, and when
  \<open>completed\<close> is a boolean in every task, as the type \<open>Todo\<close> has it, the list is the
  original one.
\<close>

theorem toggle_twice_restores_completed:
  "map (\<lambda>t. truthy (map_of t ''completed''))
       (todos (toggleTodoCompletion i (toggleTodoCompletion i st))) =
     map (\<lambda>t. truthy (map_of t ''completed'')) (todos st) \<and>
   ((\<forall>t \<in> set (todos st). \<exists>b. map_of t ''completed'' = Some (JBool b)) \<longrightarrow>
      todos (toggleTodoCompletion i (toggleTodoCompletion i st)) = todos st)"
proof
  show "map (\<lambda>t. truthy (map_of t ''completed''))
          (todos (toggleTodoCompletion i (toggleTodoCompletion i st))) =
        map (\<lambda>t. truthy (map_of t ''completed'')) (todos st)"
    by (simp add: todos_toggle truthy_toggled_twice comp_def)
next
  show "(\<forall>t \<in> set (todos st). \<exists>b. map_of t ''completed'' = Some (JBool b)) \<longrightarrow>
      todos (toggleTodoCompletion i (toggleTodoCompletion i st)) = todos st"
  proof
    assume typed: "\<forall>t \<in> set (todos st). \<exists>b. map_of t ''completed'' = Some (JBool b)"
    have "map (\<lambda>t. toggled i (toggled i t)) (todos st) = map (\<lambda>t. t) (todos st)"
      using typed by (intro map_cong refl) (auto simp: toggled_twice_bool)
    then show "todos (toggleTodoCompletion i (toggleTodoCompletion i st)) = todos st"
      by (simp add: todos_toggle comp_def)
  qed
qed

theorem toggle_twice_restores_completed_witness:
  "map_of (two_tasks ! 0) ''completed'' = Some (JBool False) \<and>
   map_of (two_tasks ! 1) ''completed'' = Some (JBool True) \<and>
   todos (toggleTodoCompletion 2 ((initial_state Map.empty)\<lparr>todos := two_tasks\<rparr>)) \<noteq> two_tasks \<and>
   todos (toggleTodoCompletion 2 (toggleTodoCompletion 2
            ((initial_state Map.empty)\<lparr>todos := two_tasks\<rparr>))) = two_tasks"
proof -
  have typed: "\<forall>t \<in> set (todos ((initial_state Map.empty)\<lparr>todos := two_tasks\<rparr>)).
                 \<exists>b. map_of t ''completed'' = Some (JBool b)"
    by (auto simp: two_tasks_def)
  have changed: "todos (toggleTodoCompletion 2 ((initial_state Map.empty)\<lparr>todos := two_tasks\<rparr>))
                   \<noteq> two_tasks"
    by (simp add: todos_toggle toggled_def has_id_def two_tasks_def)
  show ?thesis
    using toggle_twice_restores_completed [of 2 "(initial_state Map.empty)\<lparr>todos := two_tasks\<rparr>"]
      typed changed
    by (simp add: two_tasks_def)
qed




subsection \<open>The sorted view\<close>

lemma insert_sorted_insort:
  "priorityOrder x \<noteq> None \<Longrightarrow> \<forall>y \<in> set ys. priorityOrder y \<noteq> None \<Longrightarrow>
     insert_sorted by_priority x ys = insort_key (\<lambda>t. - rank t) x ys"
  by (induction ys) (auto simp: by_priority_def rank_def)

lemma js_sort_sort_key:
  "\<forall>y \<in> set xs. priorityOrder y \<noteq> None \<Longrightarrow>
     js_sort by_priority xs = sort_key (\<lambda>t. - rank t) xs"
proof (induction xs)
  case Nil
  then show ?case by (simp add: js_sort_def)
next
  case (Cons x xs)
  then have ih: "foldr (insert_sorted by_priority) xs [] = sort_key (\<lambda>t. - rank t) xs"
    by (simp add: js_sort_def)
  have "\<forall>y \<in> set (sort_key (\<lambda>t. - rank t) xs). priorityOrder y \<noteq> None"
    using Cons.prems by simp
  with Cons.prems show ?case
    by (simp add: js_sort_def ih insert_sorted_insort)
qed

text \<open>
  C5. When every task of the filtered list has one of the three priorities, the sorted
  view is in descending order of rank (high 3, medium 2, low 1), the tasks of each rank
  stand in the order they had in the filtered list, and the view is a rearrangement of
  that list. A high, a medium and a high task in that order come out as the first, the
  third and the second.
\<close>

theorem sortedTodos_descending_stable:
  assumes "\<forall>t \<in> set (filteredTodos st). priorityOrder t \<noteq> None"
  shows "sorted_wrt (\<lambda>a b. rank b \<le> rank a) (sortedTodos st) \<and>
         (\<forall>r. filter (\<lambda>t. rank t = r) (sortedTodos st) =
              filter (\<lambda>t. rank t = r) (filteredTodos st)) \<and>
         mset (sortedTodos st) = mset (filteredTodos st) \<and>
         (\<forall>a b c. filteredTodos st = [a, b, c] \<and> priorityOrder a = Some 3 \<and>
                  priorityOrder b = Some 2 \<and> priorityOrder c = Some 3 \<longrightarrow>
                  sortedTodos st = [a, c, b])"
proof -
  have eq: "sortedTodos st = sort_key (\<lambda>t. - rank t) (filteredTodos st)"
    using assms by (simp add: sortedTodos_def js_sort_sort_key)
  have "sorted (map (\<lambda>t. - rank t) (sortedTodos st))"
    by (simp add: eq)
  then have d: "sorted_wrt (\<lambda>a b. rank b \<le> rank a) (sortedTodos st)"
    by (simp add: sorted_map)
  have s: "filter (\<lambda>t. rank t = r) (sortedTodos st) = filter (\<lambda>t. rank t = r) (filteredTodos st)"
    for r
    using sort_key_stable [of "\<lambda>t. - rank t" "- r" "filteredTodos st"] by (simp add: eq)
  have x: "sortedTodos st = [a, c, b]"
    if "filteredTodos st = [a, b, c]" "priorityOrder a = Some 3" "priorityOrder b = Some 2"
      "priorityOrder c = Some 3" for a b c
    using that by (simp add: sortedTodos_def js_sort_def by_priority_def)
  show ?thesis using d s x by (simp add: eq)
qed

theorem sortedTodos_descending_stable_witness:
  "map priorityOrder (filteredTodos ((initial_state Map.empty)\<lparr>todos := [task_A, task_B, task_C]\<rparr>)) =
     [Some 3, Some 2, Some 3] \<and>
   sortedTodos ((initial_state Map.empty)\<lparr>todos := [task_A, task_B, task_C]\<rparr>) =
     [task_A, task_C, task_B]"
proof -
  let ?st = "(initial_state Map.empty)\<lparr>todos := [task_A, task_B, task_C]\<rparr>"
  have f: "filteredTodos ?st = [task_A, task_B, task_C]"
    by (simp add: filteredTodos_def initial_state_def)
  have p: "priorityOrder task_A = Some 3" "priorityOrder task_B = Some 2"
      "priorityOrder task_C = Some 3"
    by (simp_all add: priorityOrder_def task_A_def task_B_def task_C_def Let_def)
  have h: "\<forall>t \<in> set (filteredTodos ?st). priorityOrder t \<noteq> None"
    using f p by simp
  show ?thesis
    using sortedTodos_descending_stable [OF h] f p by simp
qed

end
